theory Spec2Isabelle
  imports Main
begin

section \<open>Shared outcome model\<close>

text \<open>
  A call that may throw is a value: \<open>Throws msg\<close> carries the \<open>message\<close> of the
  thrown Error, \<open>Returns v\<close> the value the call resolved to.
\<close>

datatype 'a outcome = Throws string | Returns 'a

text \<open>
  The messages of the errors the JavaScript engine itself throws are the engine's
  own wording; no result below depends on them.
\<close>

text \<open>Sequencing: the second computation runs only when the first did not throw.\<close>

fun and_then :: "'a outcome \<Rightarrow> ('a \<Rightarrow> 'b outcome) \<Rightarrow> 'b outcome" where
  "and_then (Throws e) f = Throws e"
| "and_then (Returns v) f = f v"

fun sequence :: "'a outcome list \<Rightarrow> 'a list outcome" where
  "sequence [] = Returns []"
| "sequence (x # xs) = and_then x (\<lambda>v. and_then (sequence xs) (\<lambda>vs. Returns (v # vs)))"

fun rejected :: "'a outcome \<Rightarrow> bool" where
  "rejected (Throws e) = True"
| "rejected (Returns v) = False"

text \<open>
  Response bodies and oracle replies are untyped JSON in the source (\<open>any\<close>, or an
  unchecked cast of \<open>JSON.parse\<close>). Numbers are integers here (fractional numbers
  are outside the model); an object keeps its properties, each key once, in the
  order JavaScript enumerates them. \<open>JUndefined\<close> is what reading an absent
  property yields.
\<close>

datatype json =
    JUndefined
  | JNull
  | JBool bool
  | JNum int
  | JStr string
  | JArr "json list"
  | JObj "(string \<times> json) list"

text \<open>
  A verdict field is declared as one of four strings, but the runner also copies
  into it whatever an oracle reply holds: \<open>Unchecked v\<close> is a value \<open>v\<close> that is none
  of the four strings.
\<close>

datatype verdict = PASS | FAIL | WARN | ERROR | Unchecked json

fun verdict_of :: "json \<Rightarrow> verdict" where
  "verdict_of (JStr s) =
     (if s = ''PASS'' then PASS else if s = ''FAIL'' then FAIL
      else if s = ''WARN'' then WARN else if s = ''ERROR'' then ERROR
      else Unchecked (JStr s))"
| "verdict_of v = Unchecked v"

subsection \<open>JavaScript primitives used by the runners\<close>

text \<open>
  What the JavaScript runtime does with numbers is a parameter of the model: how it
  prints a number (\<open>Number.prototype.toString\<close>) and how it reads a string as a
  number (\<open>None\<close> is \<open>NaN\<close>).
\<close>

record runtime =
  number_to_string :: "int \<Rightarrow> string"
  string_to_number :: "string \<Rightarrow> int option"

fun join_comma :: "string list \<Rightarrow> string" where
  "join_comma [] = []"
| "join_comma [s] = s"
| "join_comma (s # t # rest) = s @ '','' @ join_comma (t # rest)"

text \<open>
  String conversion of a value, as a template literal (\<open>`${v}`\<close>) does it. An object
  is converted through its \<open>toString\<close>; a parsed JSON object that has a property of
  that name hides the inherited method behind a value that cannot be called, and
  the conversion throws a TypeError. An array joins the conversions of its elements.
\<close>

fun to_string :: "runtime \<Rightarrow> json \<Rightarrow> string outcome" where
  "to_string J JUndefined = Returns ''undefined''"
| "to_string J JNull = Returns ''null''"
| "to_string J (JBool b) = Returns (if b then ''true'' else ''false'')"
| "to_string J (JNum i) = Returns (number_to_string J i)"
| "to_string J (JStr s) = Returns s"
| "to_string J (JArr xs) =
     and_then
       (sequence (map (\<lambda>x. case x of JUndefined \<Rightarrow> Returns [] | JNull \<Rightarrow> Returns []
                                     | _ \<Rightarrow> to_string J x) xs))
       (\<lambda>parts. Returns (join_comma parts))"
| "to_string J (JObj kvs) =
     (if ''toString'' \<in> set (map fst kvs)
      then Throws ''Cannot convert object to primitive value''
      else Returns ''[object Object]'')"

text \<open>\<open>Number(v)\<close>; \<open>None\<close> is \<open>NaN\<close>. Objects and arrays go through their string.\<close>

fun Number :: "runtime \<Rightarrow> json \<Rightarrow> int option outcome" where
  "Number J JUndefined = Returns None"
| "Number J JNull = Returns (Some 0)"
| "Number J (JBool b) = Returns (Some (if b then 1 else 0))"
| "Number J (JNum i) = Returns (Some i)"
| "Number J (JStr s) = Returns (string_to_number J s)"
| "Number J v = and_then (to_string J v) (\<lambda>s. Returns (string_to_number J s))"

text \<open>\<open>typeof v === 'object'\<close>: objects, arrays and \<open>null\<close>.\<close>

fun typeof_object :: "json \<Rightarrow> bool" where
  "typeof_object JNull = True"
| "typeof_object (JArr xs) = True"
| "typeof_object (JObj kvs) = True"
| "typeof_object v = False"

text \<open>\<open>!v\<close>: the falsy values.\<close>

fun falsy :: "json \<Rightarrow> bool" where
  "falsy JUndefined = True"
| "falsy JNull = True"
| "falsy (JBool b) = (\<not> b)"
| "falsy (JNum i) = (i = 0)"
| "falsy (JStr s) = (s = [])"
| "falsy v = False"

text \<open>
  Reading a property \<open>v.k\<close>, for the names the source reads (none of them is a
  property every object inherits): a TypeError on \<open>null\<close> and \<open>undefined\<close>,
  \<open>undefined\<close> when the value has no such property.
\<close>

fun get_prop :: "json \<Rightarrow> string \<Rightarrow> json outcome" where
  "get_prop JUndefined k =
     Throws (''Cannot read properties of undefined (reading '' @ [CHR 0x27] @ k @ [CHR 0x27] @ '')'')"
| "get_prop JNull k =
     Throws (''Cannot read properties of null (reading '' @ [CHR 0x27] @ k @ [CHR 0x27] @ '')'')"
| "get_prop (JObj kvs) k = Returns (case map_of kvs k of Some v \<Rightarrow> v | None \<Rightarrow> JUndefined)"
| "get_prop v k = Returns JUndefined"

text \<open>
  The values a \<open>for (const x of v)\<close> loop runs over: the elements of an array, the
  characters of a string, a TypeError for anything else.
\<close>

fun for_of :: "json \<Rightarrow> json list outcome" where
  "for_of (JArr xs) = Returns xs"
| "for_of (JStr s) = Returns (map (\<lambda>c. JStr [c]) s)"
| "for_of v = Throws ''object is not iterable''"

definition digit :: "nat \<Rightarrow> char" where
  "digit d = ''0123456789'' ! d"

fun dec :: "nat \<Rightarrow> string" where
  "dec n = (if n < 10 then [digit n] else dec (n div 10) @ [digit (n mod 10)])"

declare dec.simps [simp del]

text \<open>
  \<open>Object.keys(v)\<close> for a value that is neither \<open>null\<close> nor \<open>undefined\<close>; the keys
  of an array or a string are its indices, in decimal.
\<close>

fun Object_keys :: "json \<Rightarrow> string list" where
  "Object_keys (JObj kvs) = map fst kvs"
| "Object_keys (JArr xs) = map dec [0..<length xs]"
| "Object_keys (JStr s) = map dec [0..<length s]"
| "Object_keys v = []"

text \<open>
  lodash is an external library: its \<open>_.get\<close> (lookup of a path, which may throw
  when the path is not a string) and \<open>_.isEqual\<close> (deep equality) are parameters of
  the model.
\<close>

record lodash =
  lodash_get :: "json \<Rightarrow> json \<Rightarrow> json outcome"
  lodash_isEqual :: "json \<Rightarrow> json \<Rightarrow> bool"

section \<open>Semantic oracle client (utils/ai.ts)\<close>

text \<open>
  What the body of the \<open>try\<close> block of \<open>askGroqJSON\<close> meets: the chat completion
  request rejects (or has no first choice); its content is \<open>null\<close> or empty; its
  content is not JSON, so that \<open>JSON.parse\<close> throws; or its content parses to a
  value. That value is returned as it is: the cast to the expected type checks
  nothing.
\<close>

datatype groq_outcome =
    Rejects string
  | NoContent
  | Unparsable string
  | Parses json

text \<open>
  Empty content is replaced by \<open>'{}'\<close>, which parses to the empty object; the
  \<open>catch\<close> returns the fallback.
\<close>

fun askGroqJSON :: "groq_outcome \<Rightarrow> json \<Rightarrow> json" where
  "askGroqJSON (Rejects e) fallback = fallback"
| "askGroqJSON NoContent fallback = JObj []"
| "askGroqJSON (Unparsable e) fallback = fallback"
| "askGroqJSON (Parses parsed) fallback = parsed"

text \<open>The oracle request failed: the \<open>catch\<close> of \<open>askGroqJSON\<close> was taken.\<close>

fun failed :: "groq_outcome \<Rightarrow> bool" where
  "failed (Rejects e) = True"
| "failed (Unparsable e) = True"
| "failed g = False"

datatype oracle_op = SchemaAnalysis | MismatchEvaluation | RaceIntent

definition analyzeIdempotencySchema ::
  "groq_outcome \<Rightarrow> json \<Rightarrow> nat \<Rightarrow> json \<times> oracle_op list" where
  "analyzeIdempotencySchema groq responseBody status =
     (if falsy responseBody \<or> length (Object_keys responseBody) = 0
      then (JObj [(''identity'', JArr []), (''noise'', JArr []), (''data'', JArr [])], [])
      else (askGroqJSON groq
              (JObj [(''identity'', JArr []), (''noise'', JArr []),
                     (''data'', JArr (map JStr (Object_keys responseBody)))]),
            [SchemaAnalysis]))"

definition evaluateIdempotencyMismatch ::
  "groq_outcome \<Rightarrow> nat \<times> json \<Rightarrow> nat \<times> json \<Rightarrow> json" where
  "evaluateIdempotencyMismatch groq req1 req2 =
     askGroqJSON groq
       (JObj [(''verdict'', JStr ''FAIL''),
              (''reason'', JStr ''AI Analysis Failed, defaulting to strict fail.'')])"

section \<open>Idempotency runner (engine/runners/idempotency.ts)\<close>

record IdempotencyConfig =
  url :: string
  http_method :: string
  headers :: "(string \<times> string) list option"
  body :: "json option"

record AxiosRequestConfig =
  req_method :: string
  req_url :: string
  req_headers :: "(string \<times> string) list option"
  req_data :: "json option"
  req_timeout :: nat

record AxiosResponse =
  res_status :: nat
  res_data :: json

record Diff =
  diff_field :: json
  diff_val1 :: json
  diff_val2 :: json

record IdempotencyMeta =
  req1Status :: nat
  req2Status :: nat
  req1Time :: nat
  req2Time :: nat
  aiSchema :: "json option"
  diff :: "Diff option"

text \<open>
  The description is declared a string; on the status-mismatch path it is whatever
  the oracle reply holds as \<open>reason\<close>.
\<close>

record IdempotencyResult =
  verdict :: verdict
  title :: string
  description :: json
  meta :: IdempotencyMeta

record Validation =
  v_verdict :: verdict
  v_title :: string
  v_description :: string
  v_diff :: "Diff option"

text \<open>
  The two loops of \<open>validateBodies\<close>; \<open>Returns (Some r)\<close> is the early \<open>return\<close>,
  \<open>Throws\<close> an exception raised while the returned object is built.
\<close>

fun identity_loop ::
  "runtime \<Rightarrow> lodash \<Rightarrow> json \<Rightarrow> json \<Rightarrow> json list \<Rightarrow> Validation option outcome" where
  "identity_loop J L body1 body2 [] = Returns None"
| "identity_loop J L body1 body2 (field # rest) =
     and_then (lodash_get L body1 field) (\<lambda>val1.
     and_then (lodash_get L body2 field) (\<lambda>val2.
       if \<not> lodash_isEqual L val1 val2
       then and_then (to_string J field) (\<lambda>f.
            and_then (to_string J val1) (\<lambda>v1.
            and_then (to_string J val2) (\<lambda>v2.
              Returns (Some
                \<lparr>v_verdict = FAIL,
                 v_title = ''Double Execution Detected'',
                 v_description = ''Critical identity field '' @ [CHR 0x27] @ f @ [CHR 0x27]
                   @ '' changed from '' @ [CHR 0x27] @ v1 @ [CHR 0x27]
                   @ '' to '' @ [CHR 0x27] @ v2 @ [CHR 0x27]
                   @ ''. This implies a new resource was created.'',
                 v_diff = Some \<lparr>diff_field = field, diff_val1 = val1, diff_val2 = val2\<rparr>\<rparr>))))
       else identity_loop J L body1 body2 rest))"

fun data_loop ::
  "runtime \<Rightarrow> lodash \<Rightarrow> json \<Rightarrow> json \<Rightarrow> json list \<Rightarrow> Validation option outcome" where
  "data_loop J L body1 body2 [] = Returns None"
| "data_loop J L body1 body2 (field # rest) =
     and_then (lodash_get L body1 field) (\<lambda>val1.
     and_then (lodash_get L body2 field) (\<lambda>val2.
       if \<not> lodash_isEqual L val1 val2
       then and_then (to_string J field) (\<lambda>f.
              Returns (Some
                \<lparr>v_verdict = WARN,
                 v_title = ''State Mutation Detected'',
                 v_description = ''Field '' @ [CHR 0x27] @ f @ [CHR 0x27]
                   @ '' changed value. This might be a side-effect, but the resource ID remained stable.'',
                 v_diff = Some \<lparr>diff_field = field, diff_val1 = val1, diff_val2 = val2\<rparr>\<rparr>))
       else data_loop J L body1 body2 rest))"

text \<open>The fields a loop runs over: \<open>schema.k || []\<close>, iterated.\<close>

definition fields_of :: "json \<Rightarrow> string \<Rightarrow> json list outcome" where
  "fields_of schema k =
     and_then (get_prop schema k) (\<lambda>v. for_of (if falsy v then JArr [] else v))"

definition validateBodies ::
  "runtime \<Rightarrow> lodash \<Rightarrow> json \<Rightarrow> json \<Rightarrow> json \<Rightarrow> Validation outcome" where
  "validateBodies J L body1 body2 schema =
     and_then (fields_of schema ''identity'') (\<lambda>identity_fields.
     and_then (identity_loop J L body1 body2 identity_fields) (\<lambda>found.
       case found of
         Some r \<Rightarrow> Returns r
       | None \<Rightarrow>
           and_then (fields_of schema ''data'') (\<lambda>data_fields.
           and_then (data_loop J L body1 body2 data_fields) (\<lambda>found.
             case found of
               Some r \<Rightarrow> Returns r
             | None \<Rightarrow>
                 Returns
                   \<lparr>v_verdict = PASS,
                    v_title = ''Idempotent Response'',
                    v_description =
                      ''Response body is functionally identical (ignoring dynamic metadata).'',
                    v_diff = None\<rparr>))))"

text \<open>
  What the runner does to the outside world, in order: HTTP requests (with the
  configuration they are sent with), oracle consultations, and the settle delay.
\<close>

datatype event =
    HttpRequest AxiosRequestConfig
  | OracleCall oracle_op
  | Sleep nat

text \<open>
  The environment of one run: the outcome of the first and the second \<open>axios\<close> call
  (response and measured latency, or the thrown error: network failure or timeout;
  \<open>validateStatus: () => true\<close> means no status code makes axios throw), and the
  outcome of each oracle request.
\<close>

record idem_env =
  axios1 :: "(AxiosResponse \<times> nat) outcome"
  groq_schema :: groq_outcome
  axios2 :: "(AxiosResponse \<times> nat) outcome"
  groq_mismatch :: groq_outcome

definition requestConfig :: "IdempotencyConfig \<Rightarrow> AxiosRequestConfig" where
  "requestConfig config =
     \<lparr>req_method = http_method config, req_url = url config, req_headers = headers config,
      req_data = body config, req_timeout = 8000\<rparr>"

text \<open>The \<open>catch\<close> of the runner.\<close>

definition execution_error :: "string \<Rightarrow> IdempotencyResult" where
  "execution_error msg =
     \<lparr>verdict = ERROR, title = ''Execution Error'',
      description = JStr (''Test runner failed: '' @ msg),
      meta = \<lparr>req1Status = 0, req2Status = 0, req1Time = 0, req2Time = 0,
               aiSchema = None, diff = None\<rparr>\<rparr>"

text \<open>
  Case B of the runner: the block guarded by \<open>status1 !== status2\<close>. Reading the
  reply's \<open>verdict\<close> throws when the reply is \<open>null\<close>.
\<close>

definition status_mismatch ::
  "idem_env \<Rightarrow> AxiosResponse \<Rightarrow> AxiosResponse \<Rightarrow> nat \<Rightarrow> nat \<Rightarrow> IdempotencyResult outcome" where
  "status_mismatch env res1 res2 time1 time2 =
     (let status1 = res_status res1; status2 = res_status res2;
          aiJudgment = evaluateIdempotencyMismatch (groq_mismatch env)
                         (status1, res_data res1) (status2, res_data res2)
      in and_then (get_prop aiJudgment ''verdict'') (\<lambda>v.
         and_then (get_prop aiJudgment ''reason'') (\<lambda>r.
           Returns
             \<lparr>verdict = verdict_of v,
              title = (if verdict_of v = PASS then ''Safe Idempotent Rejection''
                       else ''Inconsistent Status Code''),
              description = r,
              meta = \<lparr>req1Status = status1, req2Status = status2,
                       req1Time = time1, req2Time = time2, aiSchema = None, diff = None\<rparr>\<rparr>)))"

text \<open>Case C and the structured comparison that follows it.\<close>

definition body_verification ::
  "runtime \<Rightarrow> lodash \<Rightarrow> AxiosResponse \<Rightarrow> AxiosResponse \<Rightarrow> nat \<Rightarrow> nat \<Rightarrow> json
     \<Rightarrow> IdempotencyResult outcome" where
  "body_verification J L res1 res2 time1 time2 schema =
     (if \<not> typeof_object (res_data res1)
      then Returns
             \<lparr>verdict = (if res_data res1 = res_data res2 then PASS else WARN),
              title = ''Non-JSON Response'',
              description = JStr ''Response was text/html. Simple string comparison performed.'',
              meta = \<lparr>req1Status = res_status res1, req2Status = res_status res2,
                       req1Time = time1, req2Time = time2, aiSchema = None, diff = None\<rparr>\<rparr>
      else and_then (validateBodies J L (res_data res1) (res_data res2) schema) (\<lambda>validation.
             Returns
               \<lparr>verdict = v_verdict validation,
                title = v_title validation,
                description = JStr (v_description validation),
                meta = \<lparr>req1Status = res_status res1, req2Status = res_status res2,
                         req1Time = time1, req2Time = time2,
                         aiSchema = Some schema, diff = v_diff validation\<rparr>\<rparr>))"

text \<open>The \<open>try\<close> block of the runner, with what it did before it returned or threw.\<close>

definition runIdempotencyTest_try ::
  "runtime \<Rightarrow> lodash \<Rightarrow> idem_env \<Rightarrow> IdempotencyConfig
     \<Rightarrow> IdempotencyResult outcome \<times> event list" where
  "runIdempotencyTest_try J L env config =
     (let rc = requestConfig config in
      case axios1 env of
        Throws msg \<Rightarrow> (Throws msg, [HttpRequest rc])
      | Returns (res1, time1) \<Rightarrow>
          if res_status res1 \<ge> 500
          then (Returns
                  \<lparr>verdict = FAIL, title = ''Server Crash'',
                   description = JStr (''API returned '' @ number_to_string J (int (res_status res1))
                     @ '' on the first request. Cannot test idempotency on a broken endpoint.''),
                   meta = \<lparr>req1Status = res_status res1, req2Status = 0,
                            req1Time = time1, req2Time = 0, aiSchema = None, diff = None\<rparr>\<rparr>,
                [HttpRequest rc])
          else
            (let (schema, asked) =
                   analyzeIdempotencySchema (groq_schema env) (res_data res1) (res_status res1);
                 evs = [HttpRequest rc] @ map OracleCall asked @ [Sleep 500, HttpRequest rc]
             in case axios2 env of
                  Throws msg \<Rightarrow> (Throws msg, evs)
                | Returns (res2, time2) \<Rightarrow>
                    if res_status res1 \<ge> 200 \<and> res_status res1 < 300 \<and> res_status res2 = 409
                    then (Returns
                            \<lparr>verdict = PASS, title = ''Conflict Correctly Handled'',
                             description = JStr
                               ''Server identified the duplicate request and returned 409 Conflict.'',
                             meta = \<lparr>req1Status = res_status res1, req2Status = res_status res2,
                                      req1Time = time1, req2Time = time2,
                                      aiSchema = None, diff = None\<rparr>\<rparr>,
                          evs)
                    else if res_status res1 \<noteq> res_status res2
                    then (status_mismatch env res1 res2 time1 time2,
                          evs @ [OracleCall MismatchEvaluation])
                    else if res_status res1 \<noteq> res_status res2
                    then (status_mismatch env res1 res2 time1 time2,
                          evs @ [OracleCall MismatchEvaluation])
                    else (body_verification J L res1 res2 time1 time2 schema, evs)))"

definition runIdempotencyTest ::
  "runtime \<Rightarrow> lodash \<Rightarrow> idem_env \<Rightarrow> IdempotencyConfig \<Rightarrow> IdempotencyResult \<times> event list" where
  "runIdempotencyTest J L env config =
     (case runIdempotencyTest_try J L env config of
        (Returns result, evs) \<Rightarrow> (result, evs)
      | (Throws message, evs) \<Rightarrow> (execution_error message, evs))"

text \<open>
  The same function with the second \<open>status1 !== status2\<close> block removed, for
  comparison with the source's.
\<close>

definition runIdempotencyTest_try_single_mismatch ::
  "runtime \<Rightarrow> lodash \<Rightarrow> idem_env \<Rightarrow> IdempotencyConfig
     \<Rightarrow> IdempotencyResult outcome \<times> event list" where
  "runIdempotencyTest_try_single_mismatch J L env config =
     (let rc = requestConfig config in
      case axios1 env of
        Throws msg \<Rightarrow> (Throws msg, [HttpRequest rc])
      | Returns (res1, time1) \<Rightarrow>
          if res_status res1 \<ge> 500
          then (Returns
                  \<lparr>verdict = FAIL, title = ''Server Crash'',
                   description = JStr (''API returned '' @ number_to_string J (int (res_status res1))
                     @ '' on the first request. Cannot test idempotency on a broken endpoint.''),
                   meta = \<lparr>req1Status = res_status res1, req2Status = 0,
                            req1Time = time1, req2Time = 0, aiSchema = None, diff = None\<rparr>\<rparr>,
                [HttpRequest rc])
          else
            (let (schema, asked) =
                   analyzeIdempotencySchema (groq_schema env) (res_data res1) (res_status res1);
                 evs = [HttpRequest rc] @ map OracleCall asked @ [Sleep 500, HttpRequest rc]
             in case axios2 env of
                  Throws msg \<Rightarrow> (Throws msg, evs)
                | Returns (res2, time2) \<Rightarrow>
                    if res_status res1 \<ge> 200 \<and> res_status res1 < 300 \<and> res_status res2 = 409
                    then (Returns
                            \<lparr>verdict = PASS, title = ''Conflict Correctly Handled'',
                             description = JStr
                               ''Server identified the duplicate request and returned 409 Conflict.'',
                             meta = \<lparr>req1Status = res_status res1, req2Status = res_status res2,
                                      req1Time = time1, req2Time = time2,
                                      aiSchema = None, diff = None\<rparr>\<rparr>,
                          evs)
                    else if res_status res1 \<noteq> res_status res2
                    then (status_mismatch env res1 res2 time1 time2,
                          evs @ [OracleCall MismatchEvaluation])
                    else (body_verification J L res1 res2 time1 time2 schema, evs)))"

definition runIdempotencyTest_single_mismatch ::
  "runtime \<Rightarrow> lodash \<Rightarrow> idem_env \<Rightarrow> IdempotencyConfig \<Rightarrow> IdempotencyResult \<times> event list" where
  "runIdempotencyTest_single_mismatch J L env config =
     (case runIdempotencyTest_try_single_mismatch J L env config of
        (Returns result, evs) \<Rightarrow> (result, evs)
      | (Throws message, evs) \<Rightarrow> (execution_error message, evs))"

section \<open>Race-condition runner (engine/runners/race-conditions.ts)\<close>

datatype max_successes = UNLIMITED | Num int

text \<open>
  The constraint \<open>analyzeRaceConditionIntent\<close> returns. Its reason is declared a
  string; it is whatever truthy value the oracle reply holds as \<open>reason\<close>.
\<close>

record RaceConstraint =
  max_successes :: max_successes
  reason :: json

text \<open>\<open>n || 1\<close> for a number \<open>n\<close>: \<open>NaN\<close> and \<open>0\<close> are falsy.\<close>

fun or_1 :: "int option \<Rightarrow> int" where
  "or_1 None = 1"
| "or_1 (Some n) = (if n = 0 then 1 else n)"

text \<open>
  The reply is read after \<open>askGroqJSON\<close> has returned, outside any \<open>try\<close>: reading a
  property of a \<open>null\<close> reply throws, and so does \<open>Number\<close> on a value that has no
  string conversion.
\<close>

definition analyzeRaceConditionIntent :: "runtime \<Rightarrow> groq_outcome \<Rightarrow> RaceConstraint outcome" where
  "analyzeRaceConditionIntent J groq =
     (let result = askGroqJSON groq
                     (JObj [(''max_successes'', JNum 1), (''reason'', JStr ''Fallback Default'')])
      in and_then (get_prop result ''max_successes'') (\<lambda>ms.
         and_then (if ms = JStr ''UNLIMITED'' then Returns UNLIMITED
                   else and_then (Number J ms) (\<lambda>n. Returns (Num (or_1 n)))) (\<lambda>m.
         and_then (get_prop result ''reason'') (\<lambda>r.
           Returns \<lparr>max_successes = m,
                    reason = (if falsy r then JStr ''AI Default'' else r)\<rparr>))))"

record Constraint =
  c_max_successes :: int
  c_reason :: json

text \<open>
  One probe of the burst. \<open>fetch\<close> resolves to a response with a status (its \<open>ok\<close>
  flag is true exactly for a status from 200 to 299) whose text may fail to be read,
  or rejects with an error.
\<close>

record FetchResponse =
  f_status :: nat
  f_text :: "string outcome"

definition f_ok :: "FetchResponse \<Rightarrow> bool" where
  "f_ok res = (200 \<le> f_status res \<and> f_status res \<le> 299)"

record Probe =
  p_status :: nat
  p_ok :: bool
  p_text :: string
  p_error :: "string option"

definition probe :: "FetchResponse outcome \<Rightarrow> Probe" where
  "probe fetched =
     (case fetched of
        Returns res \<Rightarrow>
          \<lparr>p_status = f_status res, p_ok = f_ok res,
           p_text = (case f_text res of Returns t \<Rightarrow> t | Throws e \<Rightarrow> []),
           p_error = None\<rparr>
      | Throws msg \<Rightarrow> \<lparr>p_status = 0, p_ok = False, p_text = [], p_error = Some msg\<rparr>)"

record race_env =
  groq_intent :: groq_outcome
  fetch :: "nat \<Rightarrow> FetchResponse outcome"
  duration :: nat

record RaceMeta =
  totalRequests :: nat
  successCount :: nat
  failCount :: nat
  statusCodes :: "nat list"
  durationMs :: nat
  aiConstraint :: Constraint

record RaceResult =
  r_verdict :: verdict
  r_title :: string
  r_description :: string
  r_meta :: RaceMeta

definition BATCH_SIZE :: nat where
  "BATCH_SIZE = 10"

text \<open>\<open>[...new Set(xs)]\<close>: the distinct elements, in order of first occurrence.\<close>

definition distinct_in_order :: "nat list \<Rightarrow> nat list" where
  "distinct_in_order xs = foldl (\<lambda>seen x. if List.member seen x then seen else seen @ [x]) [] xs"

text \<open>
  Step 1 of the runner: the constraint, with the runner's own \<open>try\<close> and \<open>catch\<close>.
  The \<open>try\<close> ends with a log line over the constraint, after the assignment: when
  that line throws, the \<open>catch\<close> only warns and the assigned constraint stays.
\<close>

definition race_constraint :: "runtime \<Rightarrow> race_env \<Rightarrow> Constraint" where
  "race_constraint J env =
     (case analyzeRaceConditionIntent J (groq_intent env) of
        Returns aiResult \<Rightarrow>
          \<lparr>c_max_successes =
             (if max_successes aiResult = UNLIMITED then 9999
              else (case max_successes aiResult of
                      Num n \<Rightarrow> or_1 (Some n)
                    | UNLIMITED \<Rightarrow> 1)),
           c_reason = reason aiResult\<rparr>
      | Throws e \<Rightarrow> \<lparr>c_max_successes = 1, c_reason = JStr ''Default strict safety''\<rparr>)"

text \<open>Step 2: the responses of the burst, one per request of the batch.\<close>

definition responses :: "race_env \<Rightarrow> Probe list" where
  "responses env = map (\<lambda>i. probe (fetch env i)) [0..<BATCH_SIZE]"

text \<open>
  Steps 3 and 4. The description of a FAIL is a template literal over the
  constraint's reason, outside any \<open>try\<close>: when the reason has no string conversion
  the runner throws.
\<close>

definition runRaceConditionTest :: "runtime \<Rightarrow> race_env \<Rightarrow> RaceResult outcome" where
  "runRaceConditionTest J env =
     (let constraint = race_constraint J env;
          successes = length (filter p_ok (responses env));
          failures = length (filter (\<lambda>r. \<not> p_ok r) (responses env));
          distinctStatusCodes = distinct_in_order (map p_status (responses env));
          m = \<lparr>totalRequests = BATCH_SIZE, successCount = successes, failCount = failures,
               statusCodes = distinctStatusCodes, durationMs = duration env,
               aiConstraint = constraint\<rparr>
      in if int successes > c_max_successes constraint
         then and_then (to_string J (c_reason constraint)) (\<lambda>reason_text.
                Returns
                  \<lparr>r_verdict = FAIL, r_title = ''Race Condition Detected'',
                   r_description = ''The API allowed '' @ number_to_string J (int successes)
                     @ '' successful operations, but AI determined only ''
                     @ number_to_string J (c_max_successes constraint)
                     @ '' should be possible. ('' @ reason_text @ '')'',
                   r_meta = m\<rparr>)
         else if successes = 0 \<and> failures > 0
         then Returns
                \<lparr>r_verdict = WARN, r_title = ''Endpoint Unstable'',
                 r_description =
                   ''The API crashed or rejected all requests during the stress test.'',
                 r_meta = m\<rparr>
         else Returns
                \<lparr>r_verdict = PASS, r_title = ''Race Condition Safe'',
                 r_description = ''The API correctly handled high concurrency.'',
                 r_meta = m\<rparr>)"

section \<open>Dispatcher (workers/worker.ts)\<close>

datatype run_status = PENDING | RUNNING | COMPLETED | FAILED

datatype summary =
    EmptySummary
  | IdempotencySummary IdempotencyResult
  | RaceSummary RaceResult

text \<open>A row of the \<open>TestRun\<close> table, with the columns the worker writes.\<close>

record TestRun =
  status :: run_status
  run_verdict :: "verdict option"
  resultSummary :: summary
  logs :: "string option"
  finishedAt :: "nat option"

record JobConfig =
  testType :: string
  job_url :: string
  job_method :: string
  job_headers :: "(string \<times> string) list option"
  job_body :: "json option"

record TestJobData =
  testRunId :: string
  config :: JobConfig

text \<open>
  What a reader of the database and of the network can observe of the worker: each
  status written to a row (with the status it replaced), and each run of a probe.
\<close>

datatype worker_event =
    Transition string run_status run_status
  | IdempotencyProbe "event list"
  | RaceProbe

record world =
  db :: "string \<rightharpoonup> TestRun"
  observed :: "worker_event list"

text \<open>
  Prisma is an external library. It validates the values of an update before it
  writes. What it does with a value for the \<open>verdict\<close> column that is none of the
  four verdict strings is a parameter: it may reject the update with a validation
  error (nothing is written), leave the column as it is, or write a value.
\<close>

datatype column_write = Reject | Keep | Put "verdict option"

record worker_env =
  w_runtime :: runtime
  w_lodash :: lodash
  w_idem :: idem_env
  w_race :: race_env
  w_now :: nat
  w_verdict_column :: "json \<Rightarrow> column_write"

text \<open>
  \<open>prisma.testRun.update({ where: { id }, data })\<close>: rejects when no row has the
  id, otherwise writes the given columns of that row. The current status is neither
  read nor tested.
\<close>

definition prisma_update ::
  "string \<Rightarrow> (TestRun \<Rightarrow> TestRun) \<Rightarrow> world \<Rightarrow> unit outcome \<times> world" where
  "prisma_update rid change w =
     (case db w rid of
        None \<Rightarrow> (Throws ''Record to update not found.'', w)
      | Some row \<Rightarrow>
          (Returns (),
           \<lparr>db = (db w)(rid \<mapsto> change row),
            observed = observed w @ [Transition rid (status row) (status (change row))]\<rparr>))"

text \<open>
  For the text column \<open>verdict\<close> Prisma takes a string, \<open>null\<close>, \<open>undefined\<close> or
  one of its own update operations. A value that has no string conversion (an object
  with a \<open>toString\<close> property, or an array that holds one) is none of these: the
  update is rejected.
\<close>

fun verdict_column :: "worker_env \<Rightarrow> verdict \<Rightarrow> column_write" where
  "verdict_column env (Unchecked v) =
     (if rejected (to_string (w_runtime env) v) then Reject else w_verdict_column env v)"
| "verdict_column env v = Put (Some v)"

text \<open>The value a verdict field holds.\<close>

fun verdict_json :: "verdict \<Rightarrow> json" where
  "verdict_json PASS = JStr ''PASS''"
| "verdict_json FAIL = JStr ''FAIL''"
| "verdict_json WARN = JStr ''WARN''"
| "verdict_json ERROR = JStr ''ERROR''"
| "verdict_json (Unchecked v) = v"

text \<open>Step 2 of the \<open>try\<close> block: the \<open>switch\<close> on the test type.\<close>

definition select_runner ::
  "worker_env \<Rightarrow> JobConfig \<Rightarrow> world \<Rightarrow> (verdict \<times> summary) outcome \<times> world" where
  "select_runner env cfg w =
     (if testType cfg = ''IDEMPOTENCY''
      then (let (result, evs) =
                  runIdempotencyTest (w_runtime env) (w_lodash env) (w_idem env)
                    \<lparr>url = job_url cfg, http_method = job_method cfg,
                     headers = job_headers cfg, body = job_body cfg\<rparr>
            in (Returns (verdict result, IdempotencySummary result),
                w\<lparr>observed := observed w @ [IdempotencyProbe evs]\<rparr>))
      else if testType cfg = ''RACE_CONDITION''
      then (case runRaceConditionTest (w_runtime env) (w_race env) of
              Returns result \<Rightarrow>
                (Returns (r_verdict result, RaceSummary result),
                 w\<lparr>observed := observed w @ [RaceProbe]\<rparr>)
            | Throws e \<Rightarrow> (Throws e, w\<lparr>observed := observed w @ [RaceProbe]\<rparr>))
      else (Throws (''Unknown test type: '' @ testType cfg), w))"

text \<open>Step 3 of the \<open>try\<close> block: the update that saves the result.\<close>

definition save_success ::
  "worker_env \<Rightarrow> string \<Rightarrow> verdict \<Rightarrow> summary \<Rightarrow> world \<Rightarrow> unit outcome \<times> world" where
  "save_success env rid v result w =
     (case verdict_column env v of
        Reject \<Rightarrow> (Throws ''Invalid value provided for verdict.'', w)
      | Keep \<Rightarrow>
          prisma_update rid
            (\<lambda>row. row\<lparr>status := COMPLETED, resultSummary := result,
                        finishedAt := Some (w_now env)\<rparr>) w
      | Put c \<Rightarrow>
          prisma_update rid
            (\<lambda>row. row\<lparr>status := COMPLETED, run_verdict := c,
                        resultSummary := result, finishedAt := Some (w_now env)\<rparr>) w)"

text \<open>
  The \<open>try\<close> block of the job processor. Its last statement logs the verdict
  through a template literal.
\<close>

definition worker_try :: "worker_env \<Rightarrow> TestJobData \<Rightarrow> world \<Rightarrow> unit outcome \<times> world" where
  "worker_try env job w =
     (case prisma_update (testRunId job) (\<lambda>row. row\<lparr>status := RUNNING\<rparr>) w of
        (Throws e, w1) \<Rightarrow> (Throws e, w1)
      | (Returns u, w1) \<Rightarrow>
          (case select_runner env (config job) w1 of
             (Throws e, w2) \<Rightarrow> (Throws e, w2)
           | (Returns (v, result), w2) \<Rightarrow>
               (case save_success env (testRunId job) v result w2 of
                  (Throws e, w3) \<Rightarrow> (Throws e, w3)
                | (Returns u, w3) \<Rightarrow>
                    (case to_string (w_runtime env) (verdict_json v) of
                       Throws e \<Rightarrow> (Throws e, w3)
                     | Returns line \<Rightarrow> (Returns (), w3)))))"

definition worker_catch ::
  "worker_env \<Rightarrow> TestJobData \<Rightarrow> string \<Rightarrow> world \<Rightarrow> unit outcome \<times> world" where
  "worker_catch env job message w =
     prisma_update (testRunId job)
       (\<lambda>row. row\<lparr>status := FAILED, run_verdict := Some ERROR,
                   logs := Some message, finishedAt := Some (w_now env)\<rparr>) w"

text \<open>The job processor passed to \<open>new Worker\<close>.\<close>

definition worker :: "worker_env \<Rightarrow> TestJobData \<Rightarrow> world \<Rightarrow> unit outcome \<times> world" where
  "worker env job w =
     (case worker_try env job w of
        (Returns u, w') \<Rightarrow> (Returns u, w')
      | (Throws message, w') \<Rightarrow> worker_catch env job message w')"

text \<open>The status graph of the specification.\<close>

fun legal_transition :: "run_status \<Rightarrow> run_status \<Rightarrow> bool" where
  "legal_transition PENDING RUNNING = True"
| "legal_transition RUNNING COMPLETED = True"
| "legal_transition RUNNING FAILED = True"
| "legal_transition a b = False"

fun terminal :: "run_status \<Rightarrow> bool" where
  "terminal COMPLETED = True"
| "terminal FAILED = True"
| "terminal s = False"

fun is_probe :: "worker_event \<Rightarrow> bool" where
  "is_probe (Transition rid a b) = False"
| "is_probe e = True"

text \<open>The test types the \<open>switch\<close> has a case for.\<close>

definition known_type :: "string \<Rightarrow> bool" where
  "known_type tt = (tt = ''IDEMPOTENCY'' \<or> tt = ''RACE_CONDITION'')"

text \<open>
  The \<open>try\<close> block of the worker runs to its end: the runner returns a result and
  the database client accepts it.
\<close>

definition job_completes :: "worker_env \<Rightarrow> JobConfig \<Rightarrow> bool" where
  "job_completes env cfg =
     (if testType cfg = ''IDEMPOTENCY''
      then verdict_column env
             (verdict (fst (runIdempotencyTest (w_runtime env) (w_lodash env) (w_idem env)
                              \<lparr>url = job_url cfg, http_method = job_method cfg,
                               headers = job_headers cfg, body = job_body cfg\<rparr>))) \<noteq> Reject
      else if testType cfg = ''RACE_CONDITION''
      then (case runRaceConditionTest (w_runtime env) (w_race env) of
              Returns result \<Rightarrow> verdict_column env (r_verdict result) \<noteq> Reject
            | Throws e \<Rightarrow> False)
      else False)"

fun is_request :: "event \<Rightarrow> bool" where
  "is_request (HttpRequest c) = True"
| "is_request e = False"

fun carries_timeout :: "nat \<Rightarrow> event \<Rightarrow> bool" where
  "carries_timeout ms (HttpRequest c) = (req_timeout c = ms)"
| "carries_timeout ms e = True"

text \<open>
  A field whose value differs between the two bodies, as the loops test it: both
  lookups return and \<open>isEqual\<close> is false.
\<close>

definition differs :: "lodash \<Rightarrow> json \<Rightarrow> json \<Rightarrow> json \<Rightarrow> bool" where
  "differs L body1 body2 field =
     (case (lodash_get L body1 field, lodash_get L body2 field) of
        (Returns val1, Returns val2) \<Rightarrow> \<not> lodash_isEqual L val1 val2
      | _ \<Rightarrow> False)"

section \<open>Example inputs\<close>

text \<open>
  An instance of the runtime parameters, good for the examples below: decimal
  printing, which is what JavaScript prints for an integer below \<open>10^21\<close> in
  magnitude, and reading of strings of decimal digits (the empty string reads as 0).
  Other strings read as \<open>NaN\<close> here; JavaScript reads more of them as numbers.
\<close>

definition dec_int :: "int \<Rightarrow> string" where
  "dec_int i = (if i < 0 then CHR ''-'' # dec (nat (- i)) else dec (nat i))"

definition plain_numeral :: "string \<Rightarrow> int option" where
  "plain_numeral s =
     (if list_all (\<lambda>c. List.member ''0123456789'' c) s
      then Some (int (foldl (\<lambda>n c. 10 * n + (of_char c - 48)) 0 s))
      else None)"

definition node :: runtime where
  "node = \<lparr>number_to_string = dec_int, string_to_number = plain_numeral\<rparr>"

text \<open>
  An instance of the lodash parameters that is enough for flat objects and string
  paths without dots or brackets: \<open>get\<close> reads a top-level property (\<open>undefined\<close>
  when absent or when the body is no object), \<open>isEqual\<close> is equality of values.
\<close>

definition flat_lodash :: lodash where
  "flat_lodash =
     \<lparr>lodash_get = (\<lambda>b path. case path of
          JStr k \<Rightarrow> (case b of
                       JObj kvs \<Rightarrow> Returns (case map_of kvs k of Some v \<Rightarrow> v | None \<Rightarrow> JUndefined)
                     | _ \<Rightarrow> Returns JUndefined)
        | _ \<Rightarrow> Returns JUndefined),
      lodash_isEqual = (\<lambda>a b. a = b)\<rparr>"

definition pay_config :: IdempotencyConfig where
  "pay_config =
     \<lparr>url = ''https://api.example.com/pay'', http_method = ''POST'', headers = None,
      body = Some (JObj [(''amount'', JNum 5)])\<rparr>"

definition account_a1 :: json where
  "account_a1 = JObj [(''id'', JStr ''a1''), (''balance'', JNum 100)]"

definition account_a2 :: json where
  "account_a2 = JObj [(''id'', JStr ''a2''), (''balance'', JNum 95)]"

text \<open>A response whose \<open>id\<close> is an object with a property named \<open>toString\<close>.\<close>

definition account_odd :: json where
  "account_odd = JObj [(''id'', JObj [(''toString'', JNum 1)]), (''balance'', JNum 100)]"

definition account_schema :: json where
  "account_schema =
     JObj [(''identity'', JArr [JStr ''id'']), (''noise'', JArr []),
           (''data'', JArr [JStr ''balance''])]"

definition idem_world ::
  "(AxiosResponse \<times> nat) outcome \<Rightarrow> groq_outcome \<Rightarrow> (AxiosResponse \<times> nat) outcome
     \<Rightarrow> groq_outcome \<Rightarrow> idem_env" where
  "idem_world first classifier second judge =
     \<lparr>axios1 = first, groq_schema = classifier, axios2 = second, groq_mismatch = judge\<rparr>"

definition crash_env :: idem_env where
  "crash_env =
     idem_world (Returns (\<lparr>res_status = 500, res_data = JStr ''Internal Server Error''\<rparr>, 12))
       (Rejects ''oracle unreachable'')
       (Returns (\<lparr>res_status = 200, res_data = account_a1\<rparr>, 9))
       (Rejects ''oracle unreachable'')"

definition gold_env :: idem_env where
  "gold_env =
     idem_world (Returns (\<lparr>res_status = 201, res_data = account_a1\<rparr>, 12))
       (Rejects ''oracle unreachable'')
       (Returns (\<lparr>res_status = 409, res_data = JStr ''duplicate''\<rparr>, 9))
       (Parses (JObj [(''verdict'', JStr ''FAIL''), (''reason'', JStr ''looks random'')]))"




definition replay_timeout_env :: idem_env where
  "replay_timeout_env =
     idem_world (Returns (\<lparr>res_status = 200, res_data = account_a1\<rparr>, 12))
       (Rejects ''oracle unreachable'')
       (Throws ''timeout of 8000ms exceeded'')
       (Parses (JObj [(''verdict'', JStr ''PASS''),
                      (''reason'', JStr ''Replay was rejected as already paid.'')]))"

definition stable_env :: idem_env where
  "stable_env =
     idem_world (Returns (\<lparr>res_status = 200, res_data = account_a1\<rparr>, 12))
       (Rejects ''oracle unreachable'')
       (Returns (\<lparr>res_status = 200, res_data = account_a1\<rparr>, 9))
       (Rejects ''oracle unreachable'')"

text \<open>
  Both an identity field and a data field differ between the two responses, and the
  first response's \<open>id\<close> is the object with a \<open>toString\<close> property.
\<close>

definition odd_id_env :: idem_env where
  "odd_id_env =
     idem_world (Returns (\<lparr>res_status = 200, res_data = account_odd\<rparr>, 12))
       (Parses account_schema)
       (Returns (\<lparr>res_status = 200, res_data = account_a2\<rparr>, 9))
       (Rejects ''oracle unreachable'')"

definition oracle_down_burst :: race_env where
  "oracle_down_burst =
     \<lparr>groq_intent = Rejects ''oracle unreachable'',
      fetch = (\<lambda>i. Returns \<lparr>f_status = 200, f_text = Returns ''ok''\<rparr>),
      duration = 40\<rparr>"

definition dead_burst :: race_env where
  "dead_burst =
     \<lparr>groq_intent = Parses (JObj [(''max_successes'', JNum 1), (''reason'', JStr ''coupon'')]),
      fetch = (\<lambda>i. Throws ''fetch failed''),
      duration = 8000\<rparr>"


text \<open>The oracle's reply is the JSON value \<open>null\<close>.\<close>

definition null_reply_burst :: race_env where
  "null_reply_burst =
     \<lparr>groq_intent = Parses JNull,
      fetch = (\<lambda>i. Returns \<lparr>f_status = 409, f_text = Returns ''taken''\<rparr>),
      duration = 40\<rparr>"

definition finished_run :: TestRun where
  "finished_run =
     \<lparr>status = COMPLETED, run_verdict = Some PASS, resultSummary = EmptySummary,
      logs = None, finishedAt = Some 1000\<rparr>"

definition pending_run :: TestRun where
  "pending_run =
     \<lparr>status = PENDING, run_verdict = None, resultSummary = EmptySummary,
      logs = None, finishedAt = None\<rparr>"

definition store :: "string \<rightharpoonup> TestRun" where
  "store = [''run-1'' \<mapsto> finished_run, ''run-2'' \<mapsto> pending_run]"

definition quiet_world :: world where
  "quiet_world = \<lparr>db = store, observed = []\<rparr>"

definition the_env :: worker_env where
  "the_env =
     \<lparr>w_runtime = node, w_lodash = flat_lodash, w_idem = crash_env, w_race = dead_burst,
      w_now = 2000, w_verdict_column = (\<lambda>v. Reject)\<rparr>"

definition job_for :: "string \<Rightarrow> string \<Rightarrow> TestJobData" where
  "job_for rid tt =
     \<lparr>testRunId = rid,
      config = \<lparr>testType = tt, job_url = ''https://api.example.com/pay'', job_method = ''POST'',
                job_headers = None, job_body = Some (JObj [(''amount'', JNum 5)])\<rparr>\<rparr>"

section \<open>Idempotency runner: verified properties\<close>

text \<open>
  C3. When the first response has a status in [200, 300) and the replay has status 409,
  the runner returns PASS with title "Conflict Correctly Handled". The statuses differ,
  so the status-mismatch rule would apply, but the mismatch adjudicator is not consulted
  and no body comparison is reported: the rule has priority over both.
\<close>

theorem gold_standard_conflict:
  assumes "axios1 env = Returns (res1, time1)"
      and "200 \<le> res_status res1" and "res_status res1 < 300"
      and "axios2 env = Returns (res2, time2)" and "res_status res2 = 409"
  shows "verdict (fst (runIdempotencyTest J L env cfg)) = PASS
       \<and> title (fst (runIdempotencyTest J L env cfg)) = ''Conflict Correctly Handled''
       \<and> res_status res1 \<noteq> res_status res2
       \<and> OracleCall MismatchEvaluation \<notin> set (snd (runIdempotencyTest J L env cfg))
       \<and> aiSchema (meta (fst (runIdempotencyTest J L env cfg))) = None
       \<and> diff (meta (fst (runIdempotencyTest J L env cfg))) = None"
  using assms
  by (auto simp: runIdempotencyTest_def runIdempotencyTest_try_def Let_def
        analyzeIdempotencySchema_def split: prod.splits)

theorem gold_standard_conflict_witness:
  "axios1 gold_env = Returns (\<lparr>res_status = 201, res_data = account_a1\<rparr>, 12)
   \<and> axios2 gold_env = Returns (\<lparr>res_status = 409, res_data = JStr ''duplicate''\<rparr>, 9)
   \<and> groq_mismatch gold_env
       = Parses (JObj [(''verdict'', JStr ''FAIL''), (''reason'', JStr ''looks random'')])
   \<and> verdict (fst (runIdempotencyTest node flat_lodash gold_env pay_config)) = PASS
   \<and> title (fst (runIdempotencyTest node flat_lodash gold_env pay_config))
       = ''Conflict Correctly Handled''"
proof -
  have a: "axios1 gold_env = Returns (\<lparr>res_status = 201, res_data = account_a1\<rparr>, 12)"
    by (simp add: gold_env_def idem_world_def)
  have b: "axios2 gold_env = Returns (\<lparr>res_status = 409, res_data = JStr ''duplicate''\<rparr>, 9)"
    by (simp add: gold_env_def idem_world_def)
  have c: "groq_mismatch gold_env
       = Parses (JObj [(''verdict'', JStr ''FAIL''), (''reason'', JStr ''looks random'')])"
    by (simp add: gold_env_def idem_world_def)
  show ?thesis
    using a b c gold_standard_conflict [OF a _ _ b, of node flat_lodash pay_config] by simp
qed

text \<open>
  C8. When the first response has a status of 500 or more, the runner returns FAIL with
  title "Server Crash" and \<open>req2Status = 0\<close>, and the only thing it did was the first
  request: no second request is issued.
\<close>

theorem server_crash_stops_probe:
  assumes "axios1 env = Returns (res1, time1)" and "res_status res1 \<ge> 500"
  shows "verdict (fst (runIdempotencyTest J L env cfg)) = FAIL
       \<and> title (fst (runIdempotencyTest J L env cfg)) = ''Server Crash''
       \<and> req1Status (meta (fst (runIdempotencyTest J L env cfg))) = res_status res1
       \<and> req2Status (meta (fst (runIdempotencyTest J L env cfg))) = 0
       \<and> snd (runIdempotencyTest J L env cfg) = [HttpRequest (requestConfig cfg)]
       \<and> length (filter is_request (snd (runIdempotencyTest J L env cfg))) = 1"
  using assms by (simp add: runIdempotencyTest_def runIdempotencyTest_try_def Let_def)

theorem server_crash_stops_probe_witness:
  "axios1 crash_env = Returns (\<lparr>res_status = 500, res_data = JStr ''Internal Server Error''\<rparr>, 12)
   \<and> verdict (fst (runIdempotencyTest node flat_lodash crash_env pay_config)) = FAIL
   \<and> title (fst (runIdempotencyTest node flat_lodash crash_env pay_config)) = ''Server Crash''
   \<and> req2Status (meta (fst (runIdempotencyTest node flat_lodash crash_env pay_config))) = 0
   \<and> length (filter is_request (snd (runIdempotencyTest node flat_lodash crash_env pay_config))) = 1"
proof -
  have a: "axios1 crash_env
             = Returns (\<lparr>res_status = 500, res_data = JStr ''Internal Server Error''\<rparr>, 12)"
    by (simp add: crash_env_def idem_world_def)
  show ?thesis
    using a server_crash_stops_probe [OF a, of node flat_lodash pay_config] by simp
qed

text \<open>
  C10. The second block guarded by \<open>status1 !== status2\<close> is never reached: the
  runner without it is the same function as the runner of the source, on every runtime,
  lodash instance, environment and configuration.
\<close>

theorem duplicate_mismatch_branch_unreachable:
  "runIdempotencyTest_single_mismatch = runIdempotencyTest"
  by (intro ext)
     (auto simp: runIdempotencyTest_single_mismatch_def runIdempotencyTest_def
           runIdempotencyTest_try_single_mismatch_def runIdempotencyTest_try_def Let_def
           split: outcome.splits prod.splits)

subsection \<open>The status-mismatch path\<close>





subsection \<open>The comparison of the bodies\<close>

lemma identity_loop_stops_at_difference:
  "list_ex (differs L body1 body2) fs \<Longrightarrow>
   (case identity_loop J L body1 body2 fs of
      Throws e \<Rightarrow> True
    | Returns None \<Rightarrow> False
    | Returns (Some r) \<Rightarrow> v_verdict r = FAIL \<and> v_title r = ''Double Execution Detected'')"
proof (induction fs)
  case Nil
  then show ?case by simp
next
  case (Cons field rest)
  show ?case
  proof (cases "lodash_get L body1 field")
    case (Throws e)
    then show ?thesis by simp
  next
    case r1: (Returns val1)
    show ?thesis
    proof (cases "lodash_get L body2 field")
      case (Throws e)
      with r1 show ?thesis by simp
    next
      case r2: (Returns val2)
      show ?thesis
      proof (cases "lodash_isEqual L val1 val2")
        case True
        with r1 r2 Cons show ?thesis by (simp add: differs_def)
      next
        case False
        with r1 r2 show ?thesis
          by (cases "to_string J field"; cases "to_string J val1"; cases "to_string J val2") simp_all
      qed
    qed
  qed
qed

lemma identity_difference_never_warns:
  assumes "fields_of schema ''identity'' = Returns fs"
      and "list_ex (differs L body1 body2) fs"
  shows "case validateBodies J L body1 body2 schema of
           Throws e \<Rightarrow> True
         | Returns r \<Rightarrow> v_verdict r = FAIL \<and> v_title r = ''Double Execution Detected''"
  using assms(1) identity_loop_stops_at_difference [OF assms(2), of J]
  by (auto simp: validateBodies_def split: outcome.splits option.splits)

text \<open>
  C2 asks for FAIL whenever an identity field and a data field both differ. The identity
  fields are walked first, and a difference found there is never reported as WARN or
  PASS (lemma \<open>identity_difference_never_warns\<close>); but the description of the FAIL is
  a template literal over the two values, and it throws when one of them has no string
  conversion. For the responses \<open>{"id": {"toString": 1}, "balance": 100}\<close> and
  \<open>{"id": "a2", "balance": 95}\<close>, with identity field \<open>id\<close> and data field
  \<open>balance\<close>, both fields differ, \<open>validateBodies\<close> throws, and the runner returns
  ERROR "Execution Error" instead of FAIL.
\<close>

theorem identity_description_raises:
  "axios1 odd_id_env = Returns (\<lparr>res_status = 200, res_data = account_odd\<rparr>, 12)
   \<and> axios2 odd_id_env = Returns (\<lparr>res_status = 200, res_data = account_a2\<rparr>, 9)
   \<and> fst (analyzeIdempotencySchema (groq_schema odd_id_env) account_odd 200) = account_schema
   \<and> fields_of account_schema ''identity'' = Returns [JStr ''id'']
   \<and> fields_of account_schema ''data'' = Returns [JStr ''balance'']
   \<and> differs flat_lodash account_odd account_a2 (JStr ''id'')
   \<and> differs flat_lodash account_odd account_a2 (JStr ''balance'')
   \<and> validateBodies node flat_lodash account_odd account_a2 account_schema
       = Throws ''Cannot convert object to primitive value''
   \<and> verdict (fst (runIdempotencyTest node flat_lodash odd_id_env pay_config)) = ERROR
   \<and> title (fst (runIdempotencyTest node flat_lodash odd_id_env pay_config)) = ''Execution Error''"
  by (simp add: odd_id_env_def idem_world_def analyzeIdempotencySchema_def account_odd_def
      account_a2_def account_schema_def fields_of_def differs_def flat_lodash_def
      validateBodies_def runIdempotencyTest_def runIdempotencyTest_try_def Let_def
      body_verification_def execution_error_def)

section \<open>Race-condition runner: verified properties\<close>

lemma set_foldl_distinct:
  "set (foldl (\<lambda>seen x. if List.member seen x then seen else seen @ [x]) acc xs)
     = set acc \<union> set xs"
  by (induction xs arbitrary: acc) auto

lemma set_distinct_in_order: "set (distinct_in_order xs) = set xs"
  unfolding distinct_in_order_def by (subst set_foldl_distinct) simp


lemma race_result_meta:
  "runRaceConditionTest J env = Returns r \<Longrightarrow>
   r_meta r =
     \<lparr>totalRequests = BATCH_SIZE,
      successCount = length (filter p_ok (responses env)),
      failCount = length (filter (\<lambda>r. \<not> p_ok r) (responses env)),
      statusCodes = distinct_in_order (map p_status (responses env)),
      durationMs = duration env,
      aiConstraint = race_constraint J env\<rparr>"
  by (cases "to_string J (c_reason (race_constraint J env))")
     (auto simp: runRaceConditionTest_def Let_def split: if_splits)



lemma dead_burst_facts:
  "race_constraint node dead_burst = \<lparr>c_max_successes = 1, c_reason = JStr ''coupon''\<rparr>"
  "responses dead_burst
     = replicate 10 \<lparr>p_status = 0, p_ok = False, p_text = [], p_error = Some ''fetch failed''\<rparr>"
  by (simp_all add: race_constraint_def analyzeRaceConditionIntent_def dead_burst_def
      responses_def probe_def BATCH_SIZE_def map_replicate_const)


section \<open>Oracle fallbacks\<close>

lemma failed_uses_fallback: "failed g \<Longrightarrow> askGroqJSON g fallback = fallback"
  by (cases g) simp_all

lemma schema_fallback:
  "failed g \<Longrightarrow>
   fst (analyzeIdempotencySchema g responseBody st) =
     JObj [(''identity'', JArr []), (''noise'', JArr []),
           (''data'', JArr (map JStr (if falsy responseBody then [] else Object_keys responseBody)))]"
  by (simp add: analyzeIdempotencySchema_def failed_uses_fallback)

lemma intent_fallback:
  "failed g \<Longrightarrow>
   analyzeRaceConditionIntent J g =
     Returns \<lparr>max_successes = Num 1, reason = JStr ''Fallback Default''\<rparr>"
  by (simp add: analyzeRaceConditionIntent_def failed_uses_fallback)

lemma constraint_fallback:
  "failed (groq_intent env) \<Longrightarrow>
   race_constraint J env = \<lparr>c_max_successes = 1, c_reason = JStr ''Fallback Default''\<rparr>"
  by (simp add: race_constraint_def intent_fallback)

lemma constraint_default:
  "rejected (analyzeRaceConditionIntent J (groq_intent env)) \<Longrightarrow>
   race_constraint J env = \<lparr>c_max_successes = 1, c_reason = JStr ''Default strict safety''\<rparr>"
  by (cases "analyzeRaceConditionIntent J (groq_intent env)") (simp_all add: race_constraint_def)

lemma race_returns_on_string_reason:
  "c_reason (race_constraint J env) = JStr s \<Longrightarrow>
   \<exists>r. runRaceConditionTest J env = Returns r \<and> aiConstraint (r_meta r) = race_constraint J env"
  by (simp add: runRaceConditionTest_def Let_def)

text \<open>
  With the oracle unreachable, the constraint the race-condition runner works with has
  the reason "Fallback Default", the fallback of \<open>analyzeRaceConditionIntent\<close>, and
  not the runner's own initial value "Default strict safety". And with a reply that is
  the JSON value \<open>null\<close>, \<open>analyzeRaceConditionIntent\<close> raises to the runner.
\<close>

theorem oracle_down_reason_counterexample:
  "groq_intent oracle_down_burst = Rejects ''oracle unreachable''
   \<and> race_constraint node oracle_down_burst
       = \<lparr>c_max_successes = 1, c_reason = JStr ''Fallback Default''\<rparr>
   \<and> race_constraint node oracle_down_burst
       \<noteq> \<lparr>c_max_successes = 1, c_reason = JStr ''Default strict safety''\<rparr>
   \<and> (\<exists>r. runRaceConditionTest node oracle_down_burst = Returns r
        \<and> aiConstraint (r_meta r) = \<lparr>c_max_successes = 1, c_reason = JStr ''Fallback Default''\<rparr>)
   \<and> groq_intent null_reply_burst = Parses JNull
   \<and> rejected (analyzeRaceConditionIntent node (groq_intent null_reply_burst))"
proof -
  have g: "groq_intent oracle_down_burst = Rejects ''oracle unreachable''"
    by (simp add: oracle_down_burst_def)
  then have f: "failed (groq_intent oracle_down_burst)" by simp
  have n: "groq_intent null_reply_burst = Parses JNull"
    by (simp add: null_reply_burst_def)
  then have r: "rejected (analyzeRaceConditionIntent node (groq_intent null_reply_burst))"
    by (simp add: analyzeRaceConditionIntent_def)
  show ?thesis
    using g n r race_returns_on_string_reason [of node oracle_down_burst "''Fallback Default''"]
    by (simp add: constraint_fallback [OF f])
qed

text \<open>
  C6, as the oracle client implements it. When an oracle request fails (the request
  rejects or its content is not JSON), the operation returns its fallback and does not
  raise: \<open>analyzeIdempotencySchema\<close> a schema with empty identity and noise and all
  top-level keys of the response body as data, \<open>evaluateIdempotencyMismatch\<close> the
  strict FAIL, \<open>analyzeRaceConditionIntent\<close> the constraint with
  \<open>max_successes = 1\<close> and reason "Fallback Default". Both runners proceed with the
  fallback value. When \<open>analyzeRaceConditionIntent\<close> raises, the race-condition runner
  catches it and proceeds with its own constraint, \<open>max_successes = 1\<close> and reason
  "Default strict safety".
\<close>

theorem oracle_failure_fallbacks:
  "(failed g1 \<longrightarrow>
      fst (analyzeIdempotencySchema g1 responseBody st) =
        JObj [(''identity'', JArr []), (''noise'', JArr []),
              (''data'', JArr (map JStr (if falsy responseBody then []
                                         else Object_keys responseBody)))])
   \<and> (failed g2 \<longrightarrow>
        evaluateIdempotencyMismatch g2 req1 req2 =
          JObj [(''verdict'', JStr ''FAIL''),
                (''reason'', JStr ''AI Analysis Failed, defaulting to strict fail.'')])
   \<and> (failed g3 \<longrightarrow>
        analyzeRaceConditionIntent J g3 =
          Returns \<lparr>max_successes = Num 1, reason = JStr ''Fallback Default''\<rparr>)
   \<and> (failed (groq_intent renv) \<longrightarrow>
        (\<exists>r. runRaceConditionTest J renv = Returns r
           \<and> aiConstraint (r_meta r)
               = \<lparr>c_max_successes = 1, c_reason = JStr ''Fallback Default''\<rparr>))
   \<and> (rejected (analyzeRaceConditionIntent J (groq_intent renv)) \<longrightarrow>
        (\<exists>r. runRaceConditionTest J renv = Returns r
           \<and> aiConstraint (r_meta r)
               = \<lparr>c_max_successes = 1, c_reason = JStr ''Default strict safety''\<rparr>))
   \<and> (failed (groq_schema env) \<and> axios1 env = Returns (res1, time1) \<and> res_status res1 < 500
        \<and> axios2 env = Returns (res2, time2) \<and> res_status res2 = res_status res1 \<longrightarrow>
        fst (runIdempotencyTest_try J L env cfg) =
          body_verification J L res1 res2 time1 time2
            (JObj [(''identity'', JArr []), (''noise'', JArr []),
                   (''data'', JArr (map JStr (if falsy (res_data res1) then []
                                              else Object_keys (res_data res1))))]))"
proof (intro conjI impI)
  assume "failed g1"
  then show "fst (analyzeIdempotencySchema g1 responseBody st) =
        JObj [(''identity'', JArr []), (''noise'', JArr []),
              (''data'', JArr (map JStr (if falsy responseBody then []
                                         else Object_keys responseBody)))]"
    by (rule schema_fallback)
next
  assume "failed g2"
  then show "evaluateIdempotencyMismatch g2 req1 req2 =
          JObj [(''verdict'', JStr ''FAIL''),
                (''reason'', JStr ''AI Analysis Failed, defaulting to strict fail.'')]"
    by (simp add: evaluateIdempotencyMismatch_def failed_uses_fallback)
next
  assume "failed g3"
  then show "analyzeRaceConditionIntent J g3 =
          Returns \<lparr>max_successes = Num 1, reason = JStr ''Fallback Default''\<rparr>"
    by (rule intent_fallback)
next
  assume "failed (groq_intent renv)"
  then have "race_constraint J renv
               = \<lparr>c_max_successes = 1, c_reason = JStr ''Fallback Default''\<rparr>"
    by (rule constraint_fallback)
  with race_returns_on_string_reason [of J renv "''Fallback Default''"]
  show "\<exists>r. runRaceConditionTest J renv = Returns r
           \<and> aiConstraint (r_meta r)
               = \<lparr>c_max_successes = 1, c_reason = JStr ''Fallback Default''\<rparr>"
    by simp
next
  assume "rejected (analyzeRaceConditionIntent J (groq_intent renv))"
  then have "race_constraint J renv
               = \<lparr>c_max_successes = 1, c_reason = JStr ''Default strict safety''\<rparr>"
    by (rule constraint_default)
  with race_returns_on_string_reason [of J renv "''Default strict safety''"]
  show "\<exists>r. runRaceConditionTest J renv = Returns r
           \<and> aiConstraint (r_meta r)
               = \<lparr>c_max_successes = 1, c_reason = JStr ''Default strict safety''\<rparr>"
    by simp
next
  assume a: "failed (groq_schema env) \<and> axios1 env = Returns (res1, time1) \<and> res_status res1 < 500
        \<and> axios2 env = Returns (res2, time2) \<and> res_status res2 = res_status res1"
  obtain schema asked where
    s: "analyzeIdempotencySchema (groq_schema env) (res_data res1) (res_status res1)
          = (schema, asked)"
    by (cases "analyzeIdempotencySchema (groq_schema env) (res_data res1) (res_status res1)")
  have "schema = JObj [(''identity'', JArr []), (''noise'', JArr []),
                   (''data'', JArr (map JStr (if falsy (res_data res1) then []
                                              else Object_keys (res_data res1))))]"
    using schema_fallback [of "groq_schema env" "res_data res1" "res_status res1"] s a by simp
  then show "fst (runIdempotencyTest_try J L env cfg) =
          body_verification J L res1 res2 time1 time2
            (JObj [(''identity'', JArr []), (''noise'', JArr []),
                   (''data'', JArr (map JStr (if falsy (res_data res1) then []
                                              else Object_keys (res_data res1))))])"
    using a s by (auto simp: runIdempotencyTest_try_def Let_def)
qed

theorem oracle_failure_fallbacks_witness:
  "failed (groq_intent oracle_down_burst)
   \<and> (\<exists>r. runRaceConditionTest node oracle_down_burst = Returns r
        \<and> aiConstraint (r_meta r)
            = \<lparr>c_max_successes = 1, c_reason = JStr ''Fallback Default''\<rparr>)
   \<and> rejected (analyzeRaceConditionIntent node (groq_intent null_reply_burst))
   \<and> (\<exists>r. runRaceConditionTest node null_reply_burst = Returns r
        \<and> aiConstraint (r_meta r)
            = \<lparr>c_max_successes = 1, c_reason = JStr ''Default strict safety''\<rparr>)
   \<and> failed (groq_schema stable_env)
   \<and> aiSchema (meta (fst (runIdempotencyTest node flat_lodash stable_env pay_config)))
       = Some (JObj [(''identity'', JArr []), (''noise'', JArr []),
                     (''data'', JArr [JStr ''id'', JStr ''balance''])])"
proof -
  have g: "failed (groq_intent oracle_down_burst)"
    by (simp add: oracle_down_burst_def)
  have n: "rejected (analyzeRaceConditionIntent node (groq_intent null_reply_burst))"
    by (simp add: null_reply_burst_def analyzeRaceConditionIntent_def)
  have h: "failed (groq_schema stable_env)"
      "axios1 stable_env = Returns (\<lparr>res_status = 200, res_data = account_a1\<rparr>, 12)"
      "axios2 stable_env = Returns (\<lparr>res_status = 200, res_data = account_a1\<rparr>, 9)"
    by (simp_all add: stable_env_def idem_world_def)
  have "fst (runIdempotencyTest_try node flat_lodash stable_env pay_config) =
          body_verification node flat_lodash \<lparr>res_status = 200, res_data = account_a1\<rparr>
            \<lparr>res_status = 200, res_data = account_a1\<rparr> 12 9
            (JObj [(''identity'', JArr []), (''noise'', JArr []),
                   (''data'', JArr (map JStr (if falsy account_a1 then []
                                              else Object_keys account_a1)))])"
    using h oracle_failure_fallbacks [where J = node and env = stable_env
        and ?res1.0 = "\<lparr>res_status = 200, res_data = account_a1\<rparr>" and ?time1.0 = 12
        and ?res2.0 = "\<lparr>res_status = 200, res_data = account_a1\<rparr>" and ?time2.0 = 9
        and L = flat_lodash and cfg = pay_config]
    by simp
  then have s: "aiSchema (meta (fst (runIdempotencyTest node flat_lodash stable_env pay_config)))
       = Some (JObj [(''identity'', JArr []), (''noise'', JArr []),
                     (''data'', JArr [JStr ''id'', JStr ''balance''])])"
    by (cases "runIdempotencyTest_try node flat_lodash stable_env pay_config")
       (simp add: runIdempotencyTest_def body_verification_def validateBodies_def fields_of_def
          account_a1_def flat_lodash_def)
  show ?thesis
    using g n h(1) s
      oracle_failure_fallbacks [where J = node and renv = oracle_down_burst]
      oracle_failure_fallbacks [where J = node and renv = null_reply_burst]
    by simp
qed

section \<open>Failed and timed-out requests\<close>

text \<open>
  A replay (R2) that times out after an answered first request ends the probe with the
  ERROR verdict "Execution Error"; the mismatch adjudicator is not consulted.
\<close>

theorem replay_timeout_counterexample:
  "axios2 replay_timeout_env = Throws ''timeout of 8000ms exceeded''
   \<and> verdict (fst (runIdempotencyTest node flat_lodash replay_timeout_env pay_config)) = ERROR
   \<and> title (fst (runIdempotencyTest node flat_lodash replay_timeout_env pay_config))
       = ''Execution Error''
   \<and> OracleCall MismatchEvaluation
       \<notin> set (snd (runIdempotencyTest node flat_lodash replay_timeout_env pay_config))"
  by (simp add: runIdempotencyTest_def runIdempotencyTest_try_def replay_timeout_env_def
      idem_world_def Let_def execution_error_def analyzeIdempotencySchema_def account_a1_def
      split: prod.splits)

lemma idempotency_requests_timeout:
  "list_all (carries_timeout 8000) (snd (runIdempotencyTest J L env cfg))"
  by (auto simp: runIdempotencyTest_def runIdempotencyTest_try_def Let_def requestConfig_def
           list_all_iff split: outcome.splits prod.splits)

lemma rejected_not_ok: "rejected x \<Longrightarrow> \<not> p_ok (probe x)"
  by (cases x) (simp_all add: probe_def)

lemma rejected_le_failures:
  "length (filter (\<lambda>i. rejected (fetch env i)) xs)
     \<le> length (filter (\<lambda>i. \<not> p_ok (probe (fetch env i))) xs)"
proof (induction xs)
  case Nil
  then show ?case by simp
next
  case (Cons i xs)
  then show ?case by (auto dest: rejected_not_ok)
qed

lemma failures_by_index:
  "length (filter (\<lambda>r. \<not> p_ok r) (responses env))
     = length (filter (\<lambda>i. \<not> p_ok (probe (fetch env i))) [0..<BATCH_SIZE])"
  by (simp add: responses_def filter_map comp_def)

text \<open>
  C7, as the runners implement it. Every HTTP request of the idempotency runner is sent
  with a timeout of 8000 ms. A request of the idempotency probe that fails or times out
  gives the ERROR verdict at once, on the first request and on the replay alike. In the
  race-condition burst a rejected request is recorded with status 0 and not ok, so it
  is counted among the failures, and every result the runner returns reports it in
  \<open>failCount\<close> and has 0 among its status codes.
\<close>

theorem failed_requests_handling:
  "list_all (carries_timeout 8000) (snd (runIdempotencyTest J L env cfg))
   \<and> (axios1 env = Throws msg1 \<longrightarrow>
        fst (runIdempotencyTest J L env cfg) = execution_error msg1
      \<and> verdict (fst (runIdempotencyTest J L env cfg)) = ERROR)
   \<and> (axios1 env = Returns (res1, time1) \<and> res_status res1 < 500 \<and> axios2 env = Throws msg2 \<longrightarrow>
        fst (runIdempotencyTest J L env cfg) = execution_error msg2
      \<and> verdict (fst (runIdempotencyTest J L env cfg)) = ERROR)
   \<and> (i < BATCH_SIZE \<and> fetch renv i = Throws msg3 \<longrightarrow>
        probe (fetch renv i) = \<lparr>p_status = 0, p_ok = False, p_text = [], p_error = Some msg3\<rparr>
      \<and> responses renv ! i = \<lparr>p_status = 0, p_ok = False, p_text = [], p_error = Some msg3\<rparr>
      \<and> 0 < length (filter (\<lambda>r. \<not> p_ok r) (responses renv))
      \<and> (\<forall>r. runRaceConditionTest J renv = Returns r \<longrightarrow>
            0 \<in> set (statusCodes (r_meta r)) \<and> 0 < failCount (r_meta r)))
   \<and> length (filter (\<lambda>i. rejected (fetch renv i)) [0..<BATCH_SIZE])
       \<le> length (filter (\<lambda>r. \<not> p_ok r) (responses renv))
   \<and> (\<forall>r. runRaceConditionTest J renv = Returns r \<longrightarrow>
         failCount (r_meta r) = length (filter (\<lambda>r. \<not> p_ok r) (responses renv))
       \<and> successCount (r_meta r) = length (filter p_ok (responses renv)))"
proof (intro conjI impI allI)
  show "list_all (carries_timeout 8000) (snd (runIdempotencyTest J L env cfg))"
    by (rule idempotency_requests_timeout)
next
  assume "axios1 env = Throws msg1"
  then show "fst (runIdempotencyTest J L env cfg) = execution_error msg1"
    and "verdict (fst (runIdempotencyTest J L env cfg)) = ERROR"
    by (simp_all add: runIdempotencyTest_def runIdempotencyTest_try_def Let_def execution_error_def)
next
  assume "axios1 env = Returns (res1, time1) \<and> res_status res1 < 500 \<and> axios2 env = Throws msg2"
  then show "fst (runIdempotencyTest J L env cfg) = execution_error msg2"
    and "verdict (fst (runIdempotencyTest J L env cfg)) = ERROR"
    by (simp_all add: runIdempotencyTest_def runIdempotencyTest_try_def Let_def execution_error_def
        split: prod.splits)
next
  assume a: "i < BATCH_SIZE \<and> fetch renv i = Throws msg3"
  then show p: "probe (fetch renv i)
                  = \<lparr>p_status = 0, p_ok = False, p_text = [], p_error = Some msg3\<rparr>"
    by (simp add: probe_def)
  from a p show n: "responses renv ! i
                  = \<lparr>p_status = 0, p_ok = False, p_text = [], p_error = Some msg3\<rparr>"
    by (simp add: responses_def)
  from a have len: "i < length (responses renv)"
    by (simp add: responses_def)
  then have mem: "responses renv ! i \<in> set (responses renv)"
    by (rule nth_mem)
  with n have "responses renv ! i \<in> set (filter (\<lambda>r. \<not> p_ok r) (responses renv))"
    by simp
  then have ne: "filter (\<lambda>r. \<not> p_ok r) (responses renv) \<noteq> []"
    by (metis empty_iff list.set(1))
  then show pos: "0 < length (filter (\<lambda>r. \<not> p_ok r) (responses renv))"
    by simp
  fix r
  assume r: "runRaceConditionTest J renv = Returns r"
  from mem n have "0 \<in> p_status ` set (responses renv)"
    by (metis Probe.select_convs(1) imageI)
  then show "0 \<in> set (statusCodes (r_meta r))"
    by (simp add: race_result_meta [OF r] set_distinct_in_order)
  from pos show "0 < failCount (r_meta r)"
    by (simp add: race_result_meta [OF r])
next
  show "length (filter (\<lambda>i. rejected (fetch renv i)) [0..<BATCH_SIZE])
       \<le> length (filter (\<lambda>r. \<not> p_ok r) (responses renv))"
    by (simp add: failures_by_index rejected_le_failures)
next
  fix r
  assume r: "runRaceConditionTest J renv = Returns r"
  show "failCount (r_meta r) = length (filter (\<lambda>r. \<not> p_ok r) (responses renv))"
    and "successCount (r_meta r) = length (filter p_ok (responses renv))"
    by (simp_all add: race_result_meta [OF r])
qed

theorem failed_requests_handling_witness:
  "axios2 replay_timeout_env = Throws ''timeout of 8000ms exceeded''
   \<and> verdict (fst (runIdempotencyTest node flat_lodash replay_timeout_env pay_config)) = ERROR
   \<and> fetch dead_burst 3 = Throws ''fetch failed''
   \<and> responses dead_burst ! 3
       = \<lparr>p_status = 0, p_ok = False, p_text = [], p_error = Some ''fetch failed''\<rparr>
   \<and> 0 < length (filter (\<lambda>r. \<not> p_ok r) (responses dead_burst))
   \<and> axios1 (idem_world (Throws ''socket hang up'') NoContent (Throws ''socket hang up'') NoContent)
       = Throws ''socket hang up''
   \<and> verdict (fst (runIdempotencyTest node flat_lodash
        (idem_world (Throws ''socket hang up'') NoContent (Throws ''socket hang up'') NoContent)
        pay_config))
       = ERROR"
proof -
  have a: "axios1 replay_timeout_env = Returns (\<lparr>res_status = 200, res_data = account_a1\<rparr>, 12)"
      "axios2 replay_timeout_env = Throws ''timeout of 8000ms exceeded''"
    by (simp_all add: replay_timeout_env_def idem_world_def)
  have f: "fetch dead_burst 3 = Throws ''fetch failed''"
    by (simp add: dead_burst_def)
  have b: "axios1 (idem_world (Throws ''socket hang up'') NoContent (Throws ''socket hang up'')
             NoContent) = Throws ''socket hang up''"
    by (simp add: idem_world_def)
  show ?thesis
    using a f b
      failed_requests_handling [where J = node and L = flat_lodash and env = replay_timeout_env
        and cfg = pay_config and ?res1.0 = "\<lparr>res_status = 200, res_data = account_a1\<rparr>"
        and ?time1.0 = 12 and ?msg2.0 = "''timeout of 8000ms exceeded''"
        and i = 3 and renv = dead_burst and ?msg3.0 = "''fetch failed''"]
      failed_requests_handling [where J = node and L = flat_lodash
        and env = "idem_world (Throws ''socket hang up'') NoContent (Throws ''socket hang up'')
                     NoContent"
        and cfg = pay_config and ?msg1.0 = "''socket hang up''"]
    by (simp add: BATCH_SIZE_def execution_error_def)
qed

section \<open>Dispatcher: verified properties\<close>

lemma worker_unknown_type:
  assumes "db w (testRunId job) = Some row"
      and "testType (config job) \<noteq> ''IDEMPOTENCY''"
      and "testType (config job) \<noteq> ''RACE_CONDITION''"
  shows "worker env job w =
     (Returns (),
      \<lparr>db = (db w)(testRunId job \<mapsto>
               row\<lparr>status := FAILED, run_verdict := Some ERROR,
                   logs := Some (''Unknown test type: '' @ testType (config job)),
                   finishedAt := Some (w_now env)\<rparr>),
       observed = observed w @ [Transition (testRunId job) (status row) RUNNING,
                                Transition (testRunId job) RUNNING FAILED]\<rparr>)"
  using assms
  by (simp add: worker_def worker_try_def worker_catch_def prisma_update_def select_runner_def)

lemma catch_existing:
  assumes "db w (testRunId job) = Some row"
  shows "worker_catch env job message w =
     (Returns (),
      \<lparr>db = (db w)(testRunId job \<mapsto>
               row\<lparr>status := FAILED, run_verdict := Some ERROR, logs := Some message,
                   finishedAt := Some (w_now env)\<rparr>),
       observed = observed w @ [Transition (testRunId job) (status row) FAILED]\<rparr>)"
  using assms by (simp add: worker_catch_def prisma_update_def)

lemma accepted_verdict_prints:
  assumes "verdict_column env v \<noteq> Reject"
  shows "\<exists>line. to_string (w_runtime env) (verdict_json v) = Returns line"
proof (cases v)
  case (Unchecked j)
  with assms show ?thesis
    by (cases "to_string (w_runtime env) j") (simp_all split: if_splits)
qed simp_all

text \<open>
  The end of a job: the result is saved and logged, or the save is rejected and the
  catch runs.
\<close>

lemma save_or_catch:
  assumes "db w (testRunId job) = Some row"
  shows "\<exists>final w'.
           (case (case save_success env (testRunId job) v result w of
                    (Throws e, w3) \<Rightarrow> (Throws e, w3)
                  | (Returns u, w3) \<Rightarrow>
                      (case to_string (w_runtime env) (verdict_json v) of
                         Throws e \<Rightarrow> (Throws e, w3)
                       | Returns line \<Rightarrow> (Returns (), w3))) of
              (Returns u, w') \<Rightarrow> (Returns u, w')
            | (Throws message, w') \<Rightarrow> worker_catch env job message w') = (Returns (), w')
         \<and> (final = COMPLETED \<or> final = FAILED)
         \<and> (final = COMPLETED \<longleftrightarrow> verdict_column env v \<noteq> Reject)
         \<and> observed w' = observed w @ [Transition (testRunId job) (status row) final]
         \<and> map_option status (db w' (testRunId job)) = Some final"
proof (cases "verdict_column env v")
  case Reject
  then show ?thesis
    using assms by (simp add: save_success_def catch_existing)
next
  case Keep
  then obtain line where "to_string (w_runtime env) (verdict_json v) = Returns line"
    using accepted_verdict_prints [of env v] by auto
  with Keep show ?thesis
    using assms by (simp add: save_success_def prisma_update_def)
next
  case (Put c)
  then obtain line where "to_string (w_runtime env) (verdict_json v) = Returns line"
    using accepted_verdict_prints [of env v] by auto
  with Put show ?thesis
    using assms by (simp add: save_success_def prisma_update_def)
qed

lemma worker_existing_run:
  assumes "db w (testRunId job) = Some row"
  shows "\<exists>probes final.
           fst (worker env job w) = Returns ()
         \<and> observed (snd (worker env job w)) =
             observed w @ [Transition (testRunId job) (status row) RUNNING] @ probes
               @ [Transition (testRunId job) RUNNING final]
         \<and> list_all is_probe probes
         \<and> length probes = (if known_type (testType (config job)) then 1 else 0)
         \<and> (final = COMPLETED \<or> final = FAILED)
         \<and> (final = COMPLETED \<longleftrightarrow> job_completes env (config job))
         \<and> (\<not> known_type (testType (config job)) \<longrightarrow> final = FAILED)
         \<and> map_option status (db (snd (worker env job w)) (testRunId job)) = Some final"
proof -
  let ?rid = "testRunId job"
  let ?w1 = "\<lparr>db = (db w)(?rid \<mapsto> row\<lparr>status := RUNNING\<rparr>),
              observed = observed w @ [Transition ?rid (status row) RUNNING]\<rparr>"
  have first: "prisma_update ?rid (\<lambda>row. row\<lparr>status := RUNNING\<rparr>) w = (Returns (), ?w1)"
    using assms by (simp add: prisma_update_def)
  have running: "db (?w1\<lparr>observed := observed ?w1 @ ps\<rparr>) ?rid = Some (row\<lparr>status := RUNNING\<rparr>)"
    for ps
    by simp
  show ?thesis
  proof (cases "select_runner env (config job) ?w1")
    case (Pair chosen w2)
    have w2: "\<exists>ps. w2 = ?w1\<lparr>observed := observed ?w1 @ ps\<rparr> \<and> list_all is_probe ps
                \<and> length ps = (if known_type (testType (config job)) then 1 else 0)
                \<and> (\<not> known_type (testType (config job)) \<longrightarrow> rejected chosen)
                \<and> job_completes env (config job)
                    = (case chosen of Returns (v, s) \<Rightarrow> verdict_column env v \<noteq> Reject
                                    | Throws e \<Rightarrow> False)"
      using Pair
      by (auto simp: select_runner_def known_type_def job_completes_def Let_def
               split: if_splits prod.splits outcome.splits)
    then obtain ps where
      ps: "w2 = ?w1\<lparr>observed := observed ?w1 @ ps\<rparr>" "list_all is_probe ps"
          "length ps = (if known_type (testType (config job)) then 1 else 0)"
          "\<not> known_type (testType (config job)) \<longrightarrow> rejected chosen"
          "job_completes env (config job)
             = (case chosen of Returns (v, s) \<Rightarrow> verdict_column env v \<noteq> Reject
                             | Throws e \<Rightarrow> False)"
      by blast
    have row2: "db w2 ?rid = Some (row\<lparr>status := RUNNING\<rparr>)"
      using ps(1) running by simp
    show ?thesis
    proof (cases chosen)
      case (Throws message)
      have "worker env job w = worker_catch env job message w2"
        using first Pair Throws by (simp add: worker_def worker_try_def)
      with catch_existing [OF row2, of env message] ps Throws show ?thesis
        by (intro exI [of _ ps] exI [of _ FAILED]) simp
    next
      case (Returns saved)
      obtain v result where saved: "saved = (v, result)" by (cases saved)
      have run: "worker env job w =
              (case (case save_success env ?rid v result w2 of
                       (Throws e, w3) \<Rightarrow> (Throws e, w3)
                     | (Returns u, w3) \<Rightarrow>
                         (case to_string (w_runtime env) (verdict_json v) of
                            Throws e \<Rightarrow> (Throws e, w3)
                          | Returns line \<Rightarrow> (Returns (), w3))) of
                 (Returns u, w') \<Rightarrow> (Returns u, w')
               | (Throws message, w') \<Rightarrow> worker_catch env job message w')"
        using first Pair Returns saved by (simp add: worker_def worker_try_def)
      from save_or_catch [OF row2, of env v result] obtain final w' where
        f: "(case (case save_success env ?rid v result w2 of
                    (Throws e, w3) \<Rightarrow> (Throws e, w3)
                  | (Returns u, w3) \<Rightarrow>
                      (case to_string (w_runtime env) (verdict_json v) of
                         Throws e \<Rightarrow> (Throws e, w3)
                       | Returns line \<Rightarrow> (Returns (), w3))) of
              (Returns u, w') \<Rightarrow> (Returns u, w')
            | (Throws message, w') \<Rightarrow> worker_catch env job message w') = (Returns (), w')"
           "final = COMPLETED \<or> final = FAILED"
           "final = COMPLETED \<longleftrightarrow> verdict_column env v \<noteq> Reject"
           "observed w' = observed w2 @ [Transition ?rid (status (row\<lparr>status := RUNNING\<rparr>)) final]"
           "map_option status (db w' ?rid) = Some final"
        by blast
      from ps(4) Returns have known: "known_type (testType (config job))"
        by auto
      from run f ps known Returns saved show ?thesis
        by (intro exI [of _ ps] exI [of _ final]) simp
    qed
  qed
qed

text \<open>
  A job delivered again for a Run that is already COMPLETED: the worker writes RUNNING
  over the terminal status, which is not a transition of the specification's graph,
  and runs the probe again (an HTTP request is sent).
\<close>

theorem redelivery_counterexample:
  "db quiet_world ''run-1'' = Some finished_run
   \<and> terminal (status finished_run)
   \<and> observed (snd (worker the_env (job_for ''run-1'' ''IDEMPOTENCY'') quiet_world)) =
       [Transition ''run-1'' COMPLETED RUNNING,
        IdempotencyProbe [HttpRequest (requestConfig pay_config)],
        Transition ''run-1'' RUNNING COMPLETED]
   \<and> \<not> legal_transition COMPLETED RUNNING"
  by (simp add: worker_def worker_try_def worker_catch_def prisma_update_def select_runner_def
      save_success_def Let_def quiet_world_def store_def finished_run_def the_env_def job_for_def
      runIdempotencyTest_def runIdempotencyTest_try_def crash_env_def idem_world_def
      requestConfig_def pay_config_def split: prod.splits)

text \<open>
  C1, as the worker implements it. For every job whose Run exists, one processing by the
  worker returns normally and writes exactly two statuses to the Run: RUNNING, then one
  terminal status, with one probe in between when the test type has a runner and none
  otherwise; the Run is left in that terminal status. The terminal status is COMPLETED
  exactly when the runner returns a result and the database accepts it, and FAILED
  otherwise, as for a test type without a runner. When the Run was PENDING, these are
  the transitions PENDING to RUNNING to COMPLETED or FAILED of the specification. The
  worker does not read the Run's status, so the same happens for a Run in any status.
\<close>

theorem worker_status_sequence:
  assumes "db w (testRunId job) = Some row"
  shows "\<exists>probes final.
           fst (worker env job w) = Returns ()
         \<and> observed (snd (worker env job w)) =
             observed w @ [Transition (testRunId job) (status row) RUNNING] @ probes
               @ [Transition (testRunId job) RUNNING final]
         \<and> list_all is_probe probes
         \<and> length probes = (if known_type (testType (config job)) then 1 else 0)
         \<and> (final = COMPLETED \<or> final = FAILED)
         \<and> (final = COMPLETED \<longleftrightarrow> job_completes env (config job))
         \<and> (\<not> known_type (testType (config job)) \<longrightarrow> final = FAILED)
         \<and> terminal final
         \<and> map_option status (db (snd (worker env job w)) (testRunId job)) = Some final
         \<and> (status row = PENDING \<longrightarrow>
              legal_transition (status row) RUNNING \<and> legal_transition RUNNING final)"
proof -
  from worker_existing_run [OF assms, of env] obtain probes final where
    h: "fst (worker env job w) = Returns ()"
       "observed (snd (worker env job w)) =
             observed w @ [Transition (testRunId job) (status row) RUNNING] @ probes
               @ [Transition (testRunId job) RUNNING final]"
       "list_all is_probe probes"
       "length probes = (if known_type (testType (config job)) then 1 else 0)"
       "final = COMPLETED \<or> final = FAILED"
       "final = COMPLETED \<longleftrightarrow> job_completes env (config job)"
       "\<not> known_type (testType (config job)) \<longrightarrow> final = FAILED"
       "map_option status (db (snd (worker env job w)) (testRunId job)) = Some final"
    by blast
  from h(5) have t: "terminal final" and l: "legal_transition RUNNING final"
    by auto
  from h t l show ?thesis
    by (intro exI [of _ probes] exI [of _ final]) simp
qed

theorem worker_status_sequence_witness:
  "db quiet_world ''run-2'' = Some pending_run
   \<and> fst (worker the_env (job_for ''run-2'' ''RACE_CONDITION'') quiet_world) = Returns ()
   \<and> observed (snd (worker the_env (job_for ''run-2'' ''RACE_CONDITION'') quiet_world)) =
       [Transition ''run-2'' PENDING RUNNING, RaceProbe, Transition ''run-2'' RUNNING COMPLETED]
   \<and> map_option status
        (db (snd (worker the_env (job_for ''run-2'' ''RACE_CONDITION'') quiet_world)) ''run-2'')
       = Some COMPLETED"
proof -
  have r: "db quiet_world (testRunId (job_for ''run-2'' ''RACE_CONDITION'')) = Some pending_run"
    by (simp add: quiet_world_def store_def job_for_def)
  have run: "runRaceConditionTest node dead_burst =
     Returns \<lparr>r_verdict = WARN, r_title = ''Endpoint Unstable'',
       r_description = ''The API crashed or rejected all requests during the stress test.'',
       r_meta = \<lparr>totalRequests = 10, successCount = 0, failCount = 10,
          statusCodes = [0], durationMs = 8000,
          aiConstraint = \<lparr>c_max_successes = 1, c_reason = JStr ''coupon''\<rparr>\<rparr>\<rparr>"
  proof -
    have codes: "distinct_in_order (replicate 10 0) = [0]"
      by (simp add: distinct_in_order_def eval_nat_numeral)
    have d: "duration dead_burst = 8000"
      by (simp add: dead_burst_def)
    show ?thesis
      by (simp add: runRaceConditionTest_def Let_def dead_burst_facts BATCH_SIZE_def codes d)
  qed
  have q: "observed (snd (worker the_env (job_for ''run-2'' ''RACE_CONDITION'') quiet_world)) =
       [Transition ''run-2'' PENDING RUNNING, RaceProbe, Transition ''run-2'' RUNNING COMPLETED]"
    by (simp add: worker_def worker_try_def worker_catch_def prisma_update_def select_runner_def
      save_success_def Let_def quiet_world_def store_def pending_run_def job_for_def the_env_def run)
  from worker_status_sequence [OF r, of the_env] obtain probes final where
    p: "fst (worker the_env (job_for ''run-2'' ''RACE_CONDITION'') quiet_world) = Returns ()"
       "observed (snd (worker the_env (job_for ''run-2'' ''RACE_CONDITION'') quiet_world)) =
          observed quiet_world
            @ [Transition (testRunId (job_for ''run-2'' ''RACE_CONDITION'')) (status pending_run) RUNNING]
            @ probes
            @ [Transition (testRunId (job_for ''run-2'' ''RACE_CONDITION'')) RUNNING final]"
       "map_option status
          (db (snd (worker the_env (job_for ''run-2'' ''RACE_CONDITION'') quiet_world))
             (testRunId (job_for ''run-2'' ''RACE_CONDITION''))) = Some final"
    by blast
  from p(2) q have "final = COMPLETED"
    by simp
  with r p q show ?thesis
    by (simp add: job_for_def)
qed

text \<open>
  C9. When the job of an existing Run has a test type without a runner, the worker
  returns normally (nothing is thrown to the queue), the Run is FAILED with verdict
  ERROR and the message "Unknown test type: ..." in its logs, no probe is run and no
  other Run is touched; a job processed next, for any existing Run, is processed to a
  terminal status as well.
\<close>

theorem unknown_test_type_fails_run:
  assumes "db w (testRunId job) = Some row"
      and "testType (config job) \<noteq> ''IDEMPOTENCY''"
      and "testType (config job) \<noteq> ''RACE_CONDITION''"
  shows "fst (worker env job w) = Returns ()
       \<and> db (snd (worker env job w)) (testRunId job) =
           Some (row\<lparr>status := FAILED, run_verdict := Some ERROR,
                     logs := Some (''Unknown test type: '' @ testType (config job)),
                     finishedAt := Some (w_now env)\<rparr>)
       \<and> (\<forall>other. other \<noteq> testRunId job \<longrightarrow>
             db (snd (worker env job w)) other = db w other)
       \<and> observed (snd (worker env job w)) =
           observed w @ [Transition (testRunId job) (status row) RUNNING,
                         Transition (testRunId job) RUNNING FAILED]
       \<and> \<not> list_ex is_probe (drop (length (observed w)) (observed (snd (worker env job w))))
       \<and> (\<forall>next_job next_row. db w (testRunId next_job) = Some next_row \<longrightarrow>
             fst (worker env next_job (snd (worker env job w))) = Returns ()
           \<and> (\<exists>final. terminal final
                \<and> map_option status
                     (db (snd (worker env next_job (snd (worker env job w)))) (testRunId next_job))
                    = Some final))"
proof -
  let ?w' = "snd (worker env job w)"
  note u = worker_unknown_type [OF assms, of env]
  have later: "fst (worker env next_job ?w') = Returns ()
           \<and> (\<exists>final. terminal final
                \<and> map_option status (db (snd (worker env next_job ?w')) (testRunId next_job))
                    = Some final)"
    if "db w (testRunId next_job) = Some next_row" for next_job next_row
  proof -
    from that u obtain row' where "db ?w' (testRunId next_job) = Some row'"
      by (cases "testRunId next_job = testRunId job") simp_all
    from worker_existing_run [OF this, of env] obtain final where
      "fst (worker env next_job ?w') = Returns ()"
      "final = COMPLETED \<or> final = FAILED"
      "map_option status (db (snd (worker env next_job ?w')) (testRunId next_job)) = Some final"
      by blast
    moreover from this(2) have "terminal final" by auto
    ultimately show ?thesis by blast
  qed
  from u later show ?thesis by simp
qed

theorem unknown_test_type_fails_run_witness:
  "db quiet_world ''run-2'' = Some pending_run
   \<and> fst (worker the_env (job_for ''run-2'' ''RATE_LIMIT'') quiet_world) = Returns ()
   \<and> db (snd (worker the_env (job_for ''run-2'' ''RATE_LIMIT'') quiet_world)) ''run-2'' =
       Some \<lparr>status = FAILED, run_verdict = Some ERROR, resultSummary = EmptySummary,
             logs = Some ''Unknown test type: RATE_LIMIT'', finishedAt = Some 2000\<rparr>
   \<and> db (snd (worker the_env (job_for ''run-2'' ''RATE_LIMIT'') quiet_world)) ''run-1''
       = Some finished_run"
proof -
  have r: "db quiet_world (testRunId (job_for ''run-2'' ''RATE_LIMIT'')) = Some pending_run"
    by (simp add: quiet_world_def store_def job_for_def)
  have t: "testType (config (job_for ''run-2'' ''RATE_LIMIT'')) \<noteq> ''IDEMPOTENCY''"
      "testType (config (job_for ''run-2'' ''RATE_LIMIT'')) \<noteq> ''RACE_CONDITION''"
    by (simp_all add: job_for_def)
  have o: "db quiet_world ''run-1'' = Some finished_run"
    by (simp add: quiet_world_def store_def)
  from unknown_test_type_fails_run [OF r t, of the_env] r o show ?thesis
    by (simp add: job_for_def pending_run_def the_env_def)
qed

end
